theory Spec2Isabelle
  imports Main
begin

section \<open>Python values, exceptions and the HTTP environment\<close>

text \<open>
  The values that cross the wrapper's interface are what \<^verbatim>\<open>response.json()\<close> decodes and
  what the caller passes as documents. Python's \<^verbatim>\<open>None\<close> and a JSON \<^verbatim>\<open>null\<close> are the same
  value, \<open>JNull\<close>. The wrapper never inspects a number, so only integers are modelled.
\<close>

datatype json =
    JNull
  | JBool bool
  | JInt int
  | JStr string
  | JList "json list"
  | JDict "(string \<times> json) list"

text \<open>
  Exception classes. \<open>ConnectionError\<close>, \<open>Timeout\<close>, \<open>HTTPError\<close> and \<open>RequestException\<close>
  (any other member of the family) are instances of \<^verbatim>\<open>requests.exceptions.RequestException\<close>;
  \<open>Exception\<close> is a direct instance of the builtin class, as \<^verbatim>\<open>raise Exception(...)\<close> makes
  it; \<open>ValueError\<close> and \<open>TypeError\<close> are the builtin classes. All of them derive from
  \<^verbatim>\<open>Exception\<close>. What is raised outside that hierarchy (\<^verbatim>\<open>KeyboardInterrupt\<close>,
  \<^verbatim>\<open>SystemExit\<close>) is not modelled.

  An exception value is what a caller can read from the object: its class, the text
  \<^verbatim>\<open>str(e)\<close>, the status code of the response attached to it (an \<^verbatim>\<open>HTTPError\<close> made by
  \<^verbatim>\<open>raise_for_status\<close> has one), and \<^verbatim>\<open>__context__\<close>: the exception that was being
  handled when this one was raised, which Python attaches to every exception raised
  inside an \<^verbatim>\<open>except\<close> block.
\<close>

datatype exc_class =
    ConnectionError
  | Timeout
  | HTTPError
  | RequestException
  | ValueError
  | TypeError
  | Exception

datatype exn =
  Exn (exn_class: exc_class) (exn_str: string) (exn_status: "nat option")
    (exn_context: "exn option")

fun is_RequestException :: "exc_class \<Rightarrow> bool" where
  "is_RequestException ConnectionError = True"
| "is_RequestException Timeout = True"
| "is_RequestException HTTPError = True"
| "is_RequestException RequestException = True"
| "is_RequestException ValueError = False"
| "is_RequestException TypeError = False"
| "is_RequestException Exception = False"

text \<open>
  One call of \<^verbatim>\<open>requests.request\<close> with its keyword arguments. \<open>headers_arg = []\<close> and
  \<open>json_arg = None\<close> stand for an argument that is not passed.
\<close>

record http_request =
  http_method :: string
  url :: string
  headers_arg :: "(string \<times> string) list"
  json_arg :: "json option"
  timeout_arg :: int

text \<open>
  A response object: its status code, the text \<^verbatim>\<open>raise_for_status\<close> puts into the
  \<^verbatim>\<open>HTTPError\<close> it raises, and what \<^verbatim>\<open>response.json()\<close> does: return the decoded body or
  raise (a \<open>RequestException\<close> in current versions of the library, a \<open>ValueError\<close> in
  older ones).
\<close>

record response =
  status_code :: nat
  http_error_msg :: string
  json_body :: "exn + json"

datatype outcome = Raises exn | Returns response

text \<open>
  The remote service and the network between: the outcome of a call is a function of the
  calls made before it and of the call itself.
\<close>

type_synonym server = "http_request list \<Rightarrow> http_request \<Rightarrow> outcome"

definition raise_for_status :: "response \<Rightarrow> exn + unit" where
  "raise_for_status r =
     (if 400 \<le> status_code r \<and> status_code r < 600
      then Inl (Exn HTTPError (http_error_msg r) (Some (status_code r)) None)
      else Inr ())"

text \<open>
  Python's \<^verbatim>\<open>len\<close>: defined on lists, dicts (the number of distinct keys) and strings
  (the number of code points), a \<open>TypeError\<close> otherwise. A \<open>string\<close> holds the UTF-8
  bytes of the text, so its code points are its bytes that are not continuation bytes.
\<close>

definition utf8_continuation :: "char \<Rightarrow> bool" where
  "utf8_continuation ch = (128 \<le> (of_char ch :: nat) \<and> (of_char ch :: nat) < 192)"

fun len :: "json \<Rightarrow> exn + int" where
  "len (JList xs) = Inr (int (length xs))"
| "len (JDict kvs) = Inr (int (length (remdups (map fst kvs))))"
| "len (JStr s) = Inr (int (length (filter (\<lambda>ch. \<not> utf8_continuation ch) s)))"
| "len JNull = Inl (Exn TypeError ''object of type 'NoneType' has no len()'' None None)"
| "len (JBool b) = Inl (Exn TypeError ''object of type 'bool' has no len()'' None None)"
| "len (JInt n) = Inl (Exn TypeError ''object of type 'int' has no len()'' None None)"

section \<open>The client\<close>

record client =
  endpoint :: string
  api_key :: string
  timeout :: int
  base_url :: string
  headers :: "(string \<times> string) list"

text \<open>
  The state a method runs in: the client object, the calls made to the HTTP library so
  far (oldest first), and the lines printed.
\<close>

record state =
  self :: client
  sent :: "http_request list"
  stdout :: "string list"

text \<open>\<^verbatim>\<open>s.rstrip(ch)\<close> for a single character: every trailing occurrence is removed.\<close>

definition rstrip :: "char \<Rightarrow> string \<Rightarrow> string" where
  "rstrip ch s = rev (dropWhile (\<lambda>c. c = ch) (rev s))"

text \<open>\<^verbatim>\<open>__init__\<close>; \<open>DudwallsClient\<close> is the construction with the default timeout.\<close>

definition init :: "string \<Rightarrow> string \<Rightarrow> int \<Rightarrow> client" where
  "init endpoint_arg api_key_arg timeout_sec =
     \<lparr>endpoint = rstrip CHR ''/'' endpoint_arg,
      api_key = api_key_arg,
      timeout = timeout_sec,
      base_url = rstrip CHR ''/'' endpoint_arg @ ''/api/dudwalls'',
      headers =
        [(''Authorization'', ''Bearer '' @ api_key_arg),
         (''Content-Type'', ''application/json''),
         (''User-Agent'', ''Dudwalls-Python-SDK/1.0.0'')]\<rparr>"

definition DudwallsClient :: "string \<Rightarrow> string \<Rightarrow> client" where
  "DudwallsClient endpoint_arg api_key_arg = init endpoint_arg api_key_arg 10"

text \<open>Handing a call to the HTTP library: the call is recorded, the environment answers.\<close>

definition send :: "server \<Rightarrow> state \<Rightarrow> http_request \<Rightarrow> outcome \<times> state" where
  "send srv s req = (srv (sent s) req, s\<lparr>sent := sent s @ [req]\<rparr>)"

text \<open>
  What the three statements \<^verbatim>\<open>response = ...; response.raise_for_status(); return
  response.json()\<close> make of an outcome.
\<close>

definition response_value :: "outcome \<Rightarrow> exn + json" where
  "response_value out =
     (case out of
        Raises e \<Rightarrow> Inl e
      | Returns r \<Rightarrow>
          (case raise_for_status r of
             Inl e \<Rightarrow> Inl e
           | Inr u \<Rightarrow> json_body r))"

text \<open>
  \<^verbatim>\<open>_request\<close>, and the keyword arguments it passes. The handler catches the
  \<open>RequestException\<close> family only and raises a plain \<open>Exception\<close> with the text of the
  caught one; anything else passes through. The \<^verbatim>\<open>raise\<close> stands inside the
  \<^verbatim>\<open>except\<close> block, so the caught exception is the context of the new one.
\<close>

definition api_error :: "exn \<Rightarrow> exn" where
  "api_error e = Exn Exception (''Dudwalls API error: '' @ exn_str e) None (Some e)"

definition request_args :: "client \<Rightarrow> string \<Rightarrow> string \<Rightarrow> json option \<Rightarrow> http_request" where
  "request_args c meth path data =
     \<lparr>http_method = meth,
      url = base_url c @ path,
      headers_arg = headers c,
      json_arg = data,
      timeout_arg = timeout c\<rparr>"

definition request ::
  "server \<Rightarrow> state \<Rightarrow> string \<Rightarrow> string \<Rightarrow> json option \<Rightarrow> (exn + json) \<times> state" where
  "request srv s meth path data =
     (let (out, s') = send srv s (request_args (self s) meth path data)
      in case response_value out of
           Inl e \<Rightarrow>
             (if is_RequestException (exn_class e)
              then (Inl (api_error e), s')
              else (Inl e, s'))
         | Inr v \<Rightarrow> (Inr v, s'))"

text \<open>
  \<^verbatim>\<open>ping\<close> calls the HTTP library itself: no headers, and no handler around the call.
\<close>

definition ping_args :: "client \<Rightarrow> http_request" where
  "ping_args c =
     \<lparr>http_method = ''GET'',
      url = endpoint c @ ''/api/health'',
      headers_arg = [],
      json_arg = None,
      timeout_arg = timeout c\<rparr>"

definition ping :: "server \<Rightarrow> state \<Rightarrow> (exn + json) \<times> state" where
  "ping srv s =
     (let (out, s') = send srv s (ping_args (self s))
      in (response_value out, s'))"

definition get_databases :: "server \<Rightarrow> state \<Rightarrow> (exn + json) \<times> state" where
  "get_databases srv s = request srv s ''GET'' ''/'' None"

definition create_database :: "server \<Rightarrow> state \<Rightarrow> string \<Rightarrow> (exn + json) \<times> state" where
  "create_database srv s name =
     request srv s ''POST'' ''/'' (Some (JDict [(''name'', JStr name)]))"

definition delete_database :: "server \<Rightarrow> state \<Rightarrow> string \<Rightarrow> (exn + json) \<times> state" where
  "delete_database srv s name = request srv s ''DELETE'' (''/'' @ name) None"

definition get_collections :: "server \<Rightarrow> state \<Rightarrow> string \<Rightarrow> (exn + json) \<times> state" where
  "get_collections srv s database = request srv s ''GET'' (''/'' @ database) None"

definition create_collection ::
  "server \<Rightarrow> state \<Rightarrow> string \<Rightarrow> string \<Rightarrow> (exn + json) \<times> state" where
  "create_collection srv s database collection =
     request srv s ''POST'' (''/'' @ database) (Some (JDict [(''name'', JStr collection)]))"

definition delete_collection ::
  "server \<Rightarrow> state \<Rightarrow> string \<Rightarrow> string \<Rightarrow> (exn + json) \<times> state" where
  "delete_collection srv s database collection =
     request srv s ''DELETE'' (''/'' @ database @ ''/'' @ collection) None"

definition find' :: "server \<Rightarrow> state \<Rightarrow> string \<Rightarrow> string \<Rightarrow> (exn + json) \<times> state" where
  "find' srv s database collection =
     request srv s ''GET'' (''/'' @ database @ ''/'' @ collection) None"

text \<open>\<^verbatim>\<open>except Exception: return None\<close>: every modelled class derives from \<open>Exception\<close>.\<close>

definition find_one ::
  "server \<Rightarrow> state \<Rightarrow> string \<Rightarrow> string \<Rightarrow> string \<Rightarrow> (exn + json) \<times> state" where
  "find_one srv s database collection doc_id =
     (case request srv s ''GET'' (''/'' @ database @ ''/'' @ collection @ ''/'' @ doc_id) None of
        (Inl e, s') \<Rightarrow> (Inr JNull, s')
      | (Inr v, s') \<Rightarrow> (Inr v, s'))"

text \<open>
  A document or update handed on as \<^verbatim>\<open>json=\<close>: the HTTP library sends no body for
  \<^verbatim>\<open>None\<close>, as if the argument were not passed.
\<close>

definition json_kwarg :: "json \<Rightarrow> json option" where
  "json_kwarg v = (if v = JNull then None else Some v)"

definition insert_one ::
  "server \<Rightarrow> state \<Rightarrow> string \<Rightarrow> string \<Rightarrow> json \<Rightarrow> (exn + json) \<times> state" where
  "insert_one srv s database collection document =
     request srv s ''POST'' (''/'' @ database @ ''/'' @ collection) (json_kwarg document)"

definition print_line :: "state \<Rightarrow> string \<Rightarrow> state" where
  "print_line s line = s\<lparr>stdout := stdout s @ [line]\<rparr>"

text \<open>The \<^verbatim>\<open>for\<close> loop of \<^verbatim>\<open>insert_many\<close>, with \<open>results\<close> as its accumulator.\<close>

fun insert_many_loop ::
  "server \<Rightarrow> string \<Rightarrow> string \<Rightarrow> json list \<Rightarrow> json list \<Rightarrow> state \<Rightarrow> json list \<times> state" where
  "insert_many_loop srv database collection [] results s = (results, s)"
| "insert_many_loop srv database collection (doc # documents) results s =
     (case insert_one srv s database collection doc of
        (Inr result, s') \<Rightarrow>
          insert_many_loop srv database collection documents (results @ [result]) s'
      | (Inl e, s') \<Rightarrow>
          insert_many_loop srv database collection documents results
            (print_line s' (''Failed to insert document: '' @ exn_str e)))"

definition insert_many ::
  "server \<Rightarrow> state \<Rightarrow> string \<Rightarrow> string \<Rightarrow> json list \<Rightarrow> (exn + json list) \<times> state" where
  "insert_many srv s database collection documents =
     (case insert_many_loop srv database collection documents [] s of
        (results, s') \<Rightarrow> (Inr results, s'))"

definition update_one ::
  "server \<Rightarrow> state \<Rightarrow> string \<Rightarrow> string \<Rightarrow> string \<Rightarrow> json \<Rightarrow> (exn + json) \<times> state" where
  "update_one srv s database collection doc_id update =
     request srv s ''PUT'' (''/'' @ database @ ''/'' @ collection @ ''/'' @ doc_id)
       (json_kwarg update)"

definition delete_one ::
  "server \<Rightarrow> state \<Rightarrow> string \<Rightarrow> string \<Rightarrow> string \<Rightarrow> (exn + json) \<times> state" where
  "delete_one srv s database collection doc_id =
     request srv s ''DELETE'' (''/'' @ database @ ''/'' @ collection @ ''/'' @ doc_id) None"

definition count :: "server \<Rightarrow> state \<Rightarrow> string \<Rightarrow> string \<Rightarrow> (exn + int) \<times> state" where
  "count srv s database collection =
     (case find' srv s database collection of
        (Inl e, s') \<Rightarrow> (Inl e, s')
      | (Inr documents, s') \<Rightarrow> (len documents, s'))"

section \<open>The methods as one interface\<close>

text \<open>
  A method call with its arguments, and its execution: the value returned or the exception
  raised to the caller, and the state after. \<open>issued\<close> are the calls to the HTTP library
  that the execution added.
\<close>

datatype op =
    Ping
  | Get_databases
  | Create_database string
  | Delete_database string
  | Get_collections string
  | Create_collection string string
  | Delete_collection string string
  | Find string string
  | Find_one string string string
  | Insert_one string string json
  | Insert_many string string "json list"
  | Update_one string string string json
  | Delete_one string string string
  | Count string string

fun call :: "server \<Rightarrow> op \<Rightarrow> state \<Rightarrow> (exn + json) \<times> state" where
  "call srv Ping s = ping srv s"
| "call srv Get_databases s = get_databases srv s"
| "call srv (Create_database name) s = create_database srv s name"
| "call srv (Delete_database name) s = delete_database srv s name"
| "call srv (Get_collections d) s = get_collections srv s d"
| "call srv (Create_collection d c) s = create_collection srv s d c"
| "call srv (Delete_collection d c) s = delete_collection srv s d c"
| "call srv (Find d c) s = find' srv s d c"
| "call srv (Find_one d c i) s = find_one srv s d c i"
| "call srv (Insert_one d c doc) s = insert_one srv s d c doc"
| "call srv (Insert_many d c docs) s =
     (case insert_many srv s d c docs of (r, s') \<Rightarrow> (map_sum id JList r, s'))"
| "call srv (Update_one d c i u) s = update_one srv s d c i u"
| "call srv (Delete_one d c i) s = delete_one srv s d c i"
| "call srv (Count d c) s =
     (case count srv s d c of (r, s') \<Rightarrow> (map_sum id JInt r, s'))"

definition issued :: "server \<Rightarrow> op \<Rightarrow> state \<Rightarrow> http_request list" where
  "issued srv op s = drop (length (sent s)) (sent (snd (call srv op s)))"

definition method_and_url :: "http_request \<Rightarrow> string \<times> string" where
  "method_and_url r = (http_method r, url r)"

fun is_ping :: "op \<Rightarrow> bool" where
  "is_ping Ping = True"
| "is_ping other = False"

fun suppresses_failures :: "op \<Rightarrow> bool" where
  "suppresses_failures (Find_one d c i) = True"
| "suppresses_failures (Insert_many d c docs) = True"
| "suppresses_failures other = False"

text \<open>
  The calls each method makes to the HTTP library, read off the method bodies: one call
  each, and one per document for \<^verbatim>\<open>insert_many\<close>.
\<close>

definition insert_call :: "client \<Rightarrow> string \<Rightarrow> string \<Rightarrow> json \<Rightarrow> http_request" where
  "insert_call c database collection document =
     request_args c ''POST'' (''/'' @ database @ ''/'' @ collection) (json_kwarg document)"

fun calls_of :: "client \<Rightarrow> op \<Rightarrow> http_request list" where
  "calls_of cl Ping = [ping_args cl]"
| "calls_of cl Get_databases = [request_args cl ''GET'' ''/'' None]"
| "calls_of cl (Create_database name) =
     [request_args cl ''POST'' ''/'' (Some (JDict [(''name'', JStr name)]))]"
| "calls_of cl (Delete_database name) = [request_args cl ''DELETE'' (''/'' @ name) None]"
| "calls_of cl (Get_collections d) = [request_args cl ''GET'' (''/'' @ d) None]"
| "calls_of cl (Create_collection d c) =
     [request_args cl ''POST'' (''/'' @ d) (Some (JDict [(''name'', JStr c)]))]"
| "calls_of cl (Delete_collection d c) = [request_args cl ''DELETE'' (''/'' @ d @ ''/'' @ c) None]"
| "calls_of cl (Find d c) = [request_args cl ''GET'' (''/'' @ d @ ''/'' @ c) None]"
| "calls_of cl (Find_one d c i) =
     [request_args cl ''GET'' (''/'' @ d @ ''/'' @ c @ ''/'' @ i) None]"
| "calls_of cl (Insert_one d c doc) = [insert_call cl d c doc]"
| "calls_of cl (Insert_many d c docs) = map (insert_call cl d c) docs"
| "calls_of cl (Update_one d c i u) =
     [request_args cl ''PUT'' (''/'' @ d @ ''/'' @ c @ ''/'' @ i) (json_kwarg u)]"
| "calls_of cl (Delete_one d c i) =
     [request_args cl ''DELETE'' (''/'' @ d @ ''/'' @ c @ ''/'' @ i) None]"
| "calls_of cl (Count d c) = [request_args cl ''GET'' (''/'' @ d @ ''/'' @ c) None]"

text \<open>
  The outcome of the \<open>i\<close>-th insert of a batch (counted from 0): the insert of document
  \<open>i\<close> in the state where the \<open>i\<close> inserts before it have been made.
\<close>

definition insert_attempt ::
  "server \<Rightarrow> state \<Rightarrow> string \<Rightarrow> string \<Rightarrow> json list \<Rightarrow> nat \<Rightarrow> exn + json" where
  "insert_attempt srv s database collection documents i =
     fst (insert_one srv
            (s\<lparr>sent := sent s @ map (insert_call (self s) database collection) (take i documents)\<rparr>)
            database collection (documents ! i))"

text \<open>The values of the attempts that returned, in their order.\<close>

definition successes :: "(exn + json) list \<Rightarrow> json list" where
  "successes rs = map projr (filter (\<lambda>r. \<not> isl r) rs)"

section \<open>Environments and states for concrete runs\<close>

definition server_down :: server where
  "server_down history req = Raises (Exn ConnectionError ''Connection refused'' None None)"

definition server_status :: "nat \<Rightarrow> json \<Rightarrow> server" where
  "server_status code payload history req =
     Returns \<lparr>status_code = code, http_error_msg = ''HTTP error'', json_body = Inr payload\<rparr>"

text \<open>Answers 200 with a body that does not decode; the library reports a \<open>ValueError\<close>.\<close>

definition server_garbled :: server where
  "server_garbled history req =
     Returns \<lparr>status_code = 200, http_error_msg = [],
              json_body = Inl (Exn ValueError ''Expecting value'' None None)\<rparr>"

text \<open>Answers 200 with the request's own body, except to the call numbered \<open>k\<close>.\<close>

definition server_failing_at :: "nat \<Rightarrow> server" where
  "server_failing_at k history req =
     (if length history = k then Raises (Exn Timeout ''Read timed out'' None None)
      else Returns \<lparr>status_code = 200, http_error_msg = [],
                     json_body = Inr (case json_arg req of None \<Rightarrow> JNull | Some d \<Rightarrow> d)\<rparr>)"

definition demo_state :: state where
  "demo_state = \<lparr>self = DudwallsClient ''http://db.test/'' ''k1'', sent = [], stdout = []\<rparr>"

section \<open>What a call does to the state\<close>

lemma request_state:
  "snd (request srv s meth path data) = s\<lparr>sent := sent s @ [request_args (self s) meth path data]\<rparr>"
  by (simp add: request_def send_def split: sum.splits)

lemma request_result:
  "fst (request srv s meth path data) =
     (case response_value (srv (sent s) (request_args (self s) meth path data)) of
        Inl e \<Rightarrow> Inl (if is_RequestException (exn_class e) then api_error e else e)
      | Inr v \<Rightarrow> Inr v)"
  by (simp add: request_def send_def split: sum.splits)

lemma ping_state: "snd (ping srv s) = s\<lparr>sent := sent s @ [ping_args (self s)]\<rparr>"
  by (simp add: ping_def send_def)

lemma ping_result: "fst (ping srv s) = response_value (srv (sent s) (ping_args (self s)))"
  by (simp add: ping_def send_def)

lemma find_one_state:
  "snd (find_one srv s d c i) =
     s\<lparr>sent := sent s @ [request_args (self s) ''GET'' (''/'' @ d @ ''/'' @ c @ ''/'' @ i) None]\<rparr>"
proof -
  obtain r s' where eq: "request srv s ''GET'' (''/'' @ d @ ''/'' @ c @ ''/'' @ i) None = (r, s')"
    by (cases "request srv s ''GET'' (''/'' @ d @ ''/'' @ c @ ''/'' @ i) None")
  then have "s' = s\<lparr>sent := sent s @ [request_args (self s) ''GET'' (''/'' @ d @ ''/'' @ c @ ''/'' @ i) None]\<rparr>"
    using request_state [of srv s "''GET''" "''/'' @ d @ ''/'' @ c @ ''/'' @ i" None] by simp
  with eq show ?thesis
    by (simp add: find_one_def split: sum.splits)
qed

lemma find_one_result:
  "fst (find_one srv s d c i) =
     (case fst (request srv s ''GET'' (''/'' @ d @ ''/'' @ c @ ''/'' @ i) None) of
        Inl e \<Rightarrow> Inr JNull | Inr v \<Rightarrow> Inr v)"
  by (simp add: find_one_def split: prod.splits sum.splits)

lemma insert_one_state:
  "snd (insert_one srv s d c doc) = s\<lparr>sent := sent s @ [insert_call (self s) d c doc]\<rparr>"
  by (simp add: insert_one_def insert_call_def request_state)

lemma insert_many_loop_state:
  "self (snd (insert_many_loop srv d c docs acc s)) = self s \<and>
   sent (snd (insert_many_loop srv d c docs acc s)) = sent s @ map (insert_call (self s) d c) docs"
proof (induction docs arbitrary: acc s)
  case Nil
  show ?case by simp
next
  case (Cons doc docs)
  obtain r s' where eq: "insert_one srv s d c doc = (r, s')"
    by (cases "insert_one srv s d c doc")
  then have s': "s' = s\<lparr>sent := sent s @ [insert_call (self s) d c doc]\<rparr>"
    using insert_one_state [of srv s d c doc] by simp
  show ?case
  proof (cases r)
    case (Inl e)
    with eq s' Cons.IH [of acc "print_line s' (''Failed to insert document: '' @ exn_str e)"]
    show ?thesis by (simp add: print_line_def)
  next
    case (Inr v)
    with eq s' Cons.IH [of "acc @ [v]" s'] show ?thesis by simp
  qed
qed

lemma insert_many_state:
  "self (snd (insert_many srv s d c docs)) = self s \<and>
   sent (snd (insert_many srv s d c docs)) = sent s @ map (insert_call (self s) d c) docs"
  using insert_many_loop_state [of srv d c docs "[]" s]
  by (auto simp: insert_many_def split: prod.splits)

lemma count_state:
  "snd (count srv s d c) = s\<lparr>sent := sent s @ [request_args (self s) ''GET'' (''/'' @ d @ ''/'' @ c) None]\<rparr>"
proof -
  obtain r s' where eq: "find' srv s d c = (r, s')"
    by (cases "find' srv s d c")
  then have "s' = s\<lparr>sent := sent s @ [request_args (self s) ''GET'' (''/'' @ d @ ''/'' @ c) None]\<rparr>"
    using request_state [of srv s "''GET''" "''/'' @ d @ ''/'' @ c" None] by (simp add: find'_def)
  with eq show ?thesis
    by (simp add: count_def split: sum.splits)
qed

lemma call_self: "self (snd (call srv op s)) = self s"
proof (cases op)
  case (Insert_many d c docs)
  then show ?thesis
    using insert_many_state [of srv s d c docs] by (auto split: prod.splits)
next
  case (Count d c)
  then show ?thesis
    using count_state [of srv s d c] by (auto split: prod.splits)
qed (simp_all add: ping_state request_state find_one_state insert_one_state
      get_databases_def create_database_def delete_database_def get_collections_def
      create_collection_def delete_collection_def find'_def update_one_def delete_one_def)

lemma call_sent: "sent (snd (call srv op s)) = sent s @ calls_of (self s) op"
proof (cases op)
  case (Insert_many d c docs)
  then show ?thesis
    using insert_many_state [of srv s d c docs] by (auto split: prod.splits)
next
  case (Count d c)
  then show ?thesis
    using count_state [of srv s d c] by (auto split: prod.splits)
qed (simp_all add: ping_state request_state find_one_state insert_one_state
      get_databases_def create_database_def delete_database_def get_collections_def
      create_collection_def delete_collection_def find'_def update_one_def delete_one_def)

lemma issued_calls: "issued srv op s = calls_of (self s) op"
  by (simp add: issued_def call_sent)

lemma rstrip_snoc: "rstrip ch (s @ [ch]) = rstrip ch s"
  by (simp add: rstrip_def)

lemma rstrip_no_trailing: "s = [] \<or> last s \<noteq> ch \<Longrightarrow> rstrip ch s = s"
  by (cases s rule: rev_cases) (simp_all add: rstrip_def)

lemma init_trailing_slash: "init (e @ ''/'') k t = init e k t"
  using rstrip_snoc [of "CHR ''/''" e] by (simp add: init_def)

lemma response_value_Raises: "response_value (Raises e) = Inl e"
  by (simp add: response_value_def)

lemma response_value_error_status:
  "400 \<le> status_code r \<Longrightarrow> status_code r < 600 \<Longrightarrow>
   response_value (Returns r) =
     Inl (Exn HTTPError (http_error_msg r) (Some (status_code r)) None)"
  by (simp add: response_value_def raise_for_status_def)

lemma insert_one_result_cong:
  "self a = self b \<Longrightarrow> sent a = sent b \<Longrightarrow>
   fst (insert_one srv a d c x) = fst (insert_one srv b d c x)"
  by (simp add: insert_one_def request_result)

lemma insert_attempt_0: "insert_attempt srv s d c (doc # docs) 0 = fst (insert_one srv s d c doc)"
proof -
  have "fst (insert_one srv
          (s\<lparr>sent := sent s @ map (insert_call (self s) d c) (take 0 (doc # docs))\<rparr>) d c doc) =
        fst (insert_one srv s d c doc)"
    by (rule insert_one_result_cong) simp_all
  then show ?thesis
    unfolding insert_attempt_def by simp
qed

lemma insert_attempt_Suc:
  assumes "self s1 = self s" and "sent s1 = sent s @ [insert_call (self s) d c doc]"
  shows "insert_attempt srv s d c (doc # docs) (Suc i) = insert_attempt srv s1 d c docs i"
proof -
  have "fst (insert_one srv
          (s\<lparr>sent := sent s @ map (insert_call (self s) d c) (take (Suc i) (doc # docs))\<rparr>)
          d c (docs ! i)) =
        fst (insert_one srv
          (s1\<lparr>sent := sent s1 @ map (insert_call (self s1) d c) (take i docs)\<rparr>)
          d c (docs ! i))"
    by (rule insert_one_result_cong) (simp_all add: assms)
  then show ?thesis
    unfolding insert_attempt_def by simp
qed

lemma insert_many_loop_results:
  "fst (insert_many_loop srv d c docs acc s) =
     acc @ successes (map (insert_attempt srv s d c docs) [0..<length docs])"
proof (induction docs arbitrary: acc s)
  case Nil
  show ?case by (simp add: successes_def)
next
  case (Cons doc docs)
  obtain r s' where eq: "insert_one srv s d c doc = (r, s')"
    by (cases "insert_one srv s d c doc")
  then have s': "s' = s\<lparr>sent := sent s @ [insert_call (self s) d c doc]\<rparr>"
    using insert_one_state [of srv s d c doc] by simp
  have r: "insert_attempt srv s d c (doc # docs) 0 = r"
    using eq by (simp add: insert_attempt_0)
  have split: "map (insert_attempt srv s d c (doc # docs)) [0..<length (doc # docs)] =
      r # map (\<lambda>i. insert_attempt srv s d c (doc # docs) (Suc i)) [0..<length docs]"
    using r by (simp add: upt_conv_Cons map_Suc_upt [symmetric] del: upt_Suc)
  show ?case
  proof (cases r)
    case (Inl e)
    let ?s1 = "print_line s' (''Failed to insert document: '' @ exn_str e)"
    have "map (\<lambda>i. insert_attempt srv s d c (doc # docs) (Suc i)) [0..<length docs] =
        map (insert_attempt srv ?s1 d c docs) [0..<length docs]"
      using s' by (simp add: insert_attempt_Suc [of ?s1 s] print_line_def)
    with Inl eq split Cons.IH [of acc ?s1] show ?thesis
      by (simp add: successes_def)
  next
    case (Inr v)
    have "map (\<lambda>i. insert_attempt srv s d c (doc # docs) (Suc i)) [0..<length docs] =
        map (insert_attempt srv s' d c docs) [0..<length docs]"
      using s' by (simp add: insert_attempt_Suc [of s' s])
    with Inr eq split Cons.IH [of "acc @ [v]" s'] show ?thesis
      by (simp add: successes_def)
  qed
qed

lemma calls_of_headers:
  "\<not> is_ping op \<Longrightarrow> r \<in> set (calls_of cl op) \<Longrightarrow> headers_arg r = headers cl"
  by (cases op) (auto simp: request_args_def insert_call_def)

lemma count_result_failure:
  assumes "fst (request srv s ''GET'' (''/'' @ d @ ''/'' @ c) None) = Inl x"
  shows "fst (count srv s d c) = Inl x"
  using assms
  by (cases "request srv s ''GET'' (''/'' @ d @ ''/'' @ c) None") (simp add: count_def find'_def)

lemma request_result_failure:
  assumes "response_value (srv (sent s) (request_args (self s) meth path data)) = Inl e"
  shows "fst (request srv s meth path data) =
           Inl (if is_RequestException (exn_class e) then api_error e else e)"
  using assms by (simp add: request_result)

lemma call_result_failure:
  assumes "\<not> suppresses_failures op" and "\<not> is_ping op"
    and "calls_of (self s) op = [r]"
    and "response_value (srv (sent s) r) = Inl e"
  shows "fst (call srv op s) =
           Inl (if is_RequestException (exn_class e) then api_error e else e)"
proof (cases op)
  case (Count d c)
  with assms have "response_value (srv (sent s)
      (request_args (self s) ''GET'' (''/'' @ d @ ''/'' @ c) None)) = Inl e"
    by simp
  then have "fst (count srv s d c) =
      Inl (if is_RequestException (exn_class e) then api_error e else e)"
    by (intro count_result_failure request_result_failure)
  with Count show ?thesis
    by (cases "count srv s d c") simp
qed (use assms in \<open>simp_all add: request_result_failure insert_call_def
      get_databases_def create_database_def delete_database_def get_collections_def
      create_collection_def delete_collection_def find'_def update_one_def delete_one_def
      insert_one_def\<close>)

lemma suppressed_never_raises: "suppresses_failures op \<Longrightarrow> \<not> isl (fst (call srv op s))"
proof (cases op)
  case (Find_one d c i)
  then show ?thesis
    by (simp add: find_one_result split: sum.splits)
next
  case (Insert_many d c docs)
  then show ?thesis
    by (cases "insert_many_loop srv d c docs [] s") (simp add: insert_many_def)
qed simp_all

section \<open>The claims\<close>

text \<open>
  C1. Let a batch of \<open>N\<close> documents be given in which the insert of document \<open>k\<close> fails
  and every other insert succeeds. Then \<^verbatim>\<open>insert_many\<close> raises nothing and returns the
  results of the other \<open>N - 1\<close> inserts, in the order of the input; it makes one insert
  call per document, in the order of the input, the ones after the failure included.
\<close>

theorem insert_many_skips_failed:
  assumes k: "k < length docs"
    and fail: "isl (insert_attempt srv s d c docs k)"
    and ok: "\<forall>i<length docs. i \<noteq> k \<longrightarrow> \<not> isl (insert_attempt srv s d c docs i)"
  shows "fst (insert_many srv s d c docs) =
           Inr (map (\<lambda>i. projr (insert_attempt srv s d c docs i)) ([0..<k] @ [Suc k..<length docs])) \<and>
         length (projr (fst (insert_many srv s d c docs))) = length docs - 1 \<and>
         issued srv (Insert_many d c docs) s = map (insert_call (self s) d c) docs"
proof -
  let ?att = "insert_attempt srv s d c docs"
  have upt: "[0..<length docs] = [0..<k] @ k # [Suc k..<length docs]"
    using k upt_add_eq_append [of 0 k "length docs - k"] by (simp add: upt_conv_Cons)
  have before: "filter (\<lambda>i. \<not> isl (?att i)) [0..<k] = [0..<k]"
    using k ok by (intro filter_True) auto
  have after: "filter (\<lambda>i. \<not> isl (?att i)) [Suc k..<length docs] = [Suc k..<length docs]"
    using ok by (intro filter_True) auto
  have "successes (map ?att [0..<length docs]) =
      map (\<lambda>i. projr (?att i)) (filter (\<lambda>i. \<not> isl (?att i)) [0..<length docs])"
    by (simp add: successes_def filter_map comp_def)
  also have "\<dots> = map (\<lambda>i. projr (?att i)) ([0..<k] @ [Suc k..<length docs])"
    using fail before after by (subst upt) simp
  finally have res: "fst (insert_many srv s d c docs) =
      Inr (map (\<lambda>i. projr (?att i)) ([0..<k] @ [Suc k..<length docs]))"
    using insert_many_loop_results [of srv d c docs "[]" s]
    by (cases "insert_many_loop srv d c docs [] s") (simp add: insert_many_def)
  have len: "length (projr (fst (insert_many srv s d c docs))) = length docs - 1"
    using k by (simp add: res)
  show ?thesis
    using res len by (simp add: issued_calls)
qed

theorem insert_many_skips_failed_witness:
  "fst (insert_many (server_failing_at 1) demo_state ''shop'' ''users''
          [JInt 10, JInt 20, JInt 30]) = Inr [JInt 10, JInt 30] \<and>
   map json_arg (issued (server_failing_at 1)
     (Insert_many ''shop'' ''users'' [JInt 10, JInt 20, JInt 30]) demo_state) =
     [Some (JInt 10), Some (JInt 20), Some (JInt 30)]"
proof -
  let ?docs = "[JInt 10, JInt 20, JInt 30]"
  let ?att = "insert_attempt (server_failing_at 1) demo_state ''shop'' ''users'' ?docs"
  have a0: "?att 0 = Inr (JInt 10)"
    by (simp add: insert_attempt_def insert_one_def request_result server_failing_at_def
        response_value_def raise_for_status_def request_args_def demo_state_def json_kwarg_def)
  have a1: "?att (Suc 0) =
      Inl (Exn Exception ''Dudwalls API error: Read timed out'' None
             (Some (Exn Timeout ''Read timed out'' None None)))"
    by (simp add: insert_attempt_def insert_one_def request_result server_failing_at_def
        response_value_def raise_for_status_def request_args_def demo_state_def api_error_def
        json_kwarg_def)
  have a2: "?att (Suc (Suc 0)) = Inr (JInt 30)"
    by (simp add: insert_attempt_def insert_one_def request_result server_failing_at_def
        response_value_def raise_for_status_def request_args_def demo_state_def json_kwarg_def)
  have k: "Suc 0 < length ?docs"
    by simp
  have fail: "isl (?att (Suc 0))"
    using a1 by simp
  have ok: "\<forall>i<length ?docs. i \<noteq> Suc 0 \<longrightarrow> \<not> isl (?att i)"
  proof (intro allI impI)
    fix i
    assume "i < length ?docs" and "i \<noteq> Suc 0"
    then have "i = 0 \<or> i = Suc (Suc 0)"
      by (auto simp: less_Suc_eq)
    then show "\<not> isl (?att i)"
      using a0 a2 by auto
  qed
  have upt: "[Suc (Suc 0)..<length ?docs] = [Suc (Suc 0)]"
    by (simp add: upt_rec)
  show ?thesis
    using insert_many_skips_failed [OF k fail ok] a0 a2 upt
    by (simp add: insert_call_def request_args_def json_kwarg_def)
qed

text \<open>
  C2. Whenever the call behind \<^verbatim>\<open>find_one\<close> fails (the HTTP library raises, the status is
  one that \<^verbatim>\<open>raise_for_status\<close> rejects, such as 404, or the body does not decode),
  \<^verbatim>\<open>find_one\<close> returns \<^verbatim>\<open>None\<close> and raises nothing. The result is the same value for
  every cause; the one call has been made.
\<close>

theorem find_one_absent_on_failure:
  assumes "isl (response_value (srv (sent s)
             (request_args (self s) ''GET'' (''/'' @ d @ ''/'' @ c @ ''/'' @ i) None)))"
  shows "find_one srv s d c i =
           (Inr JNull,
            s\<lparr>sent := sent s @
                 [request_args (self s) ''GET'' (''/'' @ d @ ''/'' @ c @ ''/'' @ i) None]\<rparr>)"
proof -
  obtain e where "response_value (srv (sent s)
      (request_args (self s) ''GET'' (''/'' @ d @ ''/'' @ c @ ''/'' @ i) None)) = Inl e"
    using assms by (auto simp: isl_def)
  then have "fst (find_one srv s d c i) = Inr JNull"
    by (simp add: find_one_result request_result)
  then show ?thesis
    using find_one_state [of srv s d c i] by (simp add: prod_eq_iff)
qed

text \<open>A 404 and a refused connection give the same result.\<close>

theorem find_one_absent_on_failure_witness:
  "find_one (server_status 404 JNull) demo_state ''shop'' ''users'' ''42'' =
     (Inr JNull,
      demo_state\<lparr>sent := [request_args (self demo_state) ''GET'' ''/shop/users/42'' None]\<rparr>) \<and>
   find_one server_down demo_state ''shop'' ''users'' ''42'' =
     (Inr JNull,
      demo_state\<lparr>sent := [request_args (self demo_state) ''GET'' ''/shop/users/42'' None]\<rparr>)"
  using find_one_absent_on_failure
      [of "server_status 404 JNull" demo_state "''shop''" "''users''" "''42''"]
    find_one_absent_on_failure [of server_down demo_state "''shop''" "''users''" "''42''"]
  by (simp add: server_status_def server_down_def response_value_error_status
      response_value_Raises demo_state_def)

text \<open>
  C3, as the code has it. \<^verbatim>\<open>find_one\<close> and \<^verbatim>\<open>insert_many\<close> never raise. Every other
  method makes one call and raises to its caller whenever that call fails, whatever the
  class of the failure. For the methods that go through \<^verbatim>\<open>_request\<close>, a failure of the
  \<open>RequestException\<close> family (the transport fails, the status is rejected) reaches the
  caller as a plain \<open>Exception\<close> whose text is \<^verbatim>\<open>Dudwalls API error: \<close> followed by the
  text of the cause and whose context is the cause itself, so the cause stays readable;
  a failure of another class reaches the caller as it is. \<^verbatim>\<open>ping\<close> raises the exception
  of the HTTP library itself.
\<close>

theorem failure_propagation:
  "(suppresses_failures op \<longrightarrow> \<not> isl (fst (call srv op s))) \<and>
   (\<not> suppresses_failures op \<and> issued srv op s = [r] \<and>
    response_value (srv (sent s) r) = Inl e \<longrightarrow>
      fst (call srv op s) =
        Inl (if is_ping op \<or> \<not> is_RequestException (exn_class e) then e
             else Exn Exception (''Dudwalls API error: '' @ exn_str e) None (Some e)))"
proof (intro conjI impI)
  assume "suppresses_failures op"
  then show "\<not> isl (fst (call srv op s))"
    by (rule suppressed_never_raises)
next
  assume a: "\<not> suppresses_failures op \<and> issued srv op s = [r] \<and>
    response_value (srv (sent s) r) = Inl e"
  show "fst (call srv op s) =
        Inl (if is_ping op \<or> \<not> is_RequestException (exn_class e) then e
             else Exn Exception (''Dudwalls API error: '' @ exn_str e) None (Some e))"
  proof (cases "is_ping op")
    case True
    then have "op = Ping"
      by (cases op) simp_all
    with a show ?thesis
      by (simp add: issued_calls ping_result)
  next
    case False
    with a call_result_failure [of op s r srv e] show ?thesis
      by (simp add: issued_calls api_error_def)
  qed
qed

text \<open>
  A rejected status in \<^verbatim>\<open>find\<close>, a refused connection in \<^verbatim>\<open>delete_database\<close> and in
  \<^verbatim>\<open>ping\<close>, an undecodable body reported as a \<open>ValueError\<close> in \<^verbatim>\<open>find\<close>, and
  \<^verbatim>\<open>find_one\<close> on a refused connection.
\<close>

theorem failure_propagation_witness:
  "fst (call (server_status 500 JNull) (Find ''shop'' ''users'') demo_state) =
     Inl (Exn Exception ''Dudwalls API error: HTTP error'' None
            (Some (Exn HTTPError ''HTTP error'' (Some 500) None))) \<and>
   fst (call server_down (Delete_database ''shop'') demo_state) =
     Inl (Exn Exception ''Dudwalls API error: Connection refused'' None
            (Some (Exn ConnectionError ''Connection refused'' None None))) \<and>
   fst (call server_down Ping demo_state) =
     Inl (Exn ConnectionError ''Connection refused'' None None) \<and>
   fst (call server_garbled (Find ''shop'' ''users'') demo_state) =
     Inl (Exn ValueError ''Expecting value'' None None) \<and>
   \<not> isl (fst (call server_down (Find_one ''shop'' ''users'' ''42'') demo_state))"
  using failure_propagation [of "Find ''shop'' ''users''" "server_status 500 JNull" demo_state
      "request_args (self demo_state) ''GET'' ''/shop/users'' None"
      "Exn HTTPError ''HTTP error'' (Some 500) None"]
    failure_propagation [of "Delete_database ''shop''" server_down demo_state
      "request_args (self demo_state) ''DELETE'' ''/shop'' None"
      "Exn ConnectionError ''Connection refused'' None None"]
    failure_propagation [of Ping server_down demo_state
      "ping_args (self demo_state)" "Exn ConnectionError ''Connection refused'' None None"]
    failure_propagation [of "Find ''shop'' ''users''" server_garbled demo_state
      "request_args (self demo_state) ''GET'' ''/shop/users'' None"
      "Exn ValueError ''Expecting value'' None None"]
    failure_propagation [of "Find_one ''shop'' ''users'' ''42''" server_down demo_state]
  by (simp add: issued_calls server_status_def server_down_def server_garbled_def
      response_value_error_status response_value_Raises response_value_def
      raise_for_status_def)

text \<open>
  Against C3 as stated. The failures of \<^verbatim>\<open>ping\<close> are not folded: a refused connection
  reaches the caller as a \<open>ConnectionError\<close>, a status 500 as an \<open>HTTPError\<close> with its
  status. And where failures are folded, in \<^verbatim>\<open>find\<close> here, the caller can still tell the
  causes apart: the context of the \<open>Exception\<close> is the \<open>ConnectionError\<close> in one run and
  the \<open>HTTPError\<close> with status 500 in the other.
\<close>

theorem ping_failure_not_folded_counterexample:
  "fst (call server_down Ping demo_state) =
     Inl (Exn ConnectionError ''Connection refused'' None None) \<and>
   fst (call (server_status 500 JNull) Ping demo_state) =
     Inl (Exn HTTPError ''HTTP error'' (Some 500) None) \<and>
   exn_context (projl (fst (call server_down (Find ''shop'' ''users'') demo_state))) =
     Some (Exn ConnectionError ''Connection refused'' None None) \<and>
   exn_context (projl (fst (call (server_status 500 JNull) (Find ''shop'' ''users'') demo_state))) =
     Some (Exn HTTPError ''HTTP error'' (Some 500) None)"
  by (simp add: ping_result find'_def request_result api_error_def server_down_def
      server_status_def response_value_Raises response_value_error_status)

text \<open>
  C5, as the code has it. Every call made through \<^verbatim>\<open>_request\<close>, that is by any method
  but \<^verbatim>\<open>ping\<close>, carries the header \<^verbatim>\<open>Authorization: Bearer \<close> with the key, and
  \<^verbatim>\<open>Content-Type: application/json\<close>. The one call that \<^verbatim>\<open>ping\<close> makes passes no
  headers at all.
\<close>

theorem api_calls_carry_headers:
  assumes "\<not> is_ping op" and "self s = init e k t"
  shows "(\<forall>r \<in> set (issued srv op s).
           map_of (headers_arg r) ''Authorization'' = Some (''Bearer '' @ k) \<and>
           map_of (headers_arg r) ''Content-Type'' = Some ''application/json'') \<and>
         map headers_arg (issued srv Ping s) = [[]]"
  using assms calls_of_headers [of op _ "self s"]
  by (simp add: issued_calls init_def ping_args_def)

theorem api_calls_carry_headers_witness:
  "issued server_down (Create_database ''shop'') demo_state =
     [request_args (self demo_state) ''POST'' ''/'' (Some (JDict [(''name'', JStr ''shop'')]))] \<and>
   map_of (headers_arg (request_args (self demo_state) ''POST'' ''/''
      (Some (JDict [(''name'', JStr ''shop'')])))) ''Authorization'' = Some ''Bearer k1'' \<and>
   map_of (headers_arg (request_args (self demo_state) ''POST'' ''/''
      (Some (JDict [(''name'', JStr ''shop'')])))) ''Content-Type'' = Some ''application/json''"
  using api_calls_carry_headers [of "Create_database ''shop''" demo_state "''http://db.test/''" "''k1''" 10
      server_down]
  by (simp add: issued_calls demo_state_def DudwallsClient_def)

text \<open>
  Against C5 as stated: the call \<^verbatim>\<open>ping\<close> makes passes no headers, so neither the
  credential nor the content type.
\<close>

theorem ping_without_headers_counterexample:
  "length (issued server_down Ping demo_state) = 1 \<and>
   map_of (headers_arg (hd (issued server_down Ping demo_state))) ''Authorization'' = None \<and>
   map_of (headers_arg (hd (issued server_down Ping demo_state))) ''Content-Type'' = None"
  by (simp add: issued_calls ping_args_def)

text \<open>
  C6, as the code has it. For a client built from endpoint \<open>e\<close>, with \<open>E\<close> the endpoint
  without its trailing slashes, \<^verbatim>\<open>delete_database\<close> makes exactly one call, a DELETE of
  \<open>E/api/dudwalls/name\<close>: the name of the database is part of the path. Every other CRUD
  method makes exactly one call too, with the method and path listed; the path of
  \<^verbatim>\<open>delete_collection\<close> ends in the collection.
\<close>

theorem crud_method_and_path:
  assumes "self s = init e k t" and "E = rstrip CHR ''/'' e"
  shows
    "map method_and_url (issued srv (Delete_database name) s) =
       [(''DELETE'', E @ ''/api/dudwalls/'' @ name)] \<and>
     map method_and_url (issued srv Get_databases s) = [(''GET'', E @ ''/api/dudwalls/'')] \<and>
     map method_and_url (issued srv (Create_database name) s) =
       [(''POST'', E @ ''/api/dudwalls/'')] \<and>
     map method_and_url (issued srv (Get_collections d) s) =
       [(''GET'', E @ ''/api/dudwalls/'' @ d)] \<and>
     map method_and_url (issued srv (Create_collection d c) s) =
       [(''POST'', E @ ''/api/dudwalls/'' @ d)] \<and>
     map method_and_url (issued srv (Delete_collection d c) s) =
       [(''DELETE'', E @ ''/api/dudwalls/'' @ d @ ''/'' @ c)] \<and>
     map method_and_url (issued srv (Find d c) s) =
       [(''GET'', E @ ''/api/dudwalls/'' @ d @ ''/'' @ c)] \<and>
     map method_and_url (issued srv (Insert_one d c doc) s) =
       [(''POST'', E @ ''/api/dudwalls/'' @ d @ ''/'' @ c)] \<and>
     map method_and_url (issued srv (Find_one d c i) s) =
       [(''GET'', E @ ''/api/dudwalls/'' @ d @ ''/'' @ c @ ''/'' @ i)] \<and>
     map method_and_url (issued srv (Update_one d c i doc) s) =
       [(''PUT'', E @ ''/api/dudwalls/'' @ d @ ''/'' @ c @ ''/'' @ i)] \<and>
     map method_and_url (issued srv (Delete_one d c i) s) =
       [(''DELETE'', E @ ''/api/dudwalls/'' @ d @ ''/'' @ c @ ''/'' @ i)]"
  using assms
  by (simp add: issued_calls method_and_url_def request_args_def insert_call_def init_def)

theorem crud_method_and_path_witness:
  "map method_and_url (issued server_down (Delete_database ''shop'') demo_state) =
     [(''DELETE'', ''http://db.test/api/dudwalls/shop'')] \<and>
   map method_and_url (issued server_down (Delete_collection ''shop'' ''users'') demo_state) =
     [(''DELETE'', ''http://db.test/api/dudwalls/shop/users'')]"
proof -
  have a: "self demo_state = init ''http://db.test/'' ''k1'' 10"
    by (simp add: demo_state_def DudwallsClient_def)
  have b: "''http://db.test'' = rstrip CHR ''/'' ''http://db.test/''"
    by (simp add: rstrip_def)
  show ?thesis
    using crud_method_and_path [OF a b, of server_down "''shop''" "''shop''" "''users''"]
    by simp
qed

text \<open>
  Against C6 as stated: deleting the database \<open>shop\<close> is not a DELETE of
  \<open>E/api/dudwalls/\<close>.
\<close>

theorem delete_database_path_counterexample:
  "map method_and_url (issued server_down (Delete_database ''shop'') demo_state) \<noteq>
     [(''DELETE'', endpoint (self demo_state) @ ''/api/dudwalls/'')]"
  by (simp add: issued_calls method_and_url_def request_args_def demo_state_def
      DudwallsClient_def init_def rstrip_def)

text \<open>
  C4. When \<^verbatim>\<open>find\<close> returns a sequence, \<^verbatim>\<open>count\<close> in the same state returns the length of
  that sequence. It makes one call, the GET of the whole collection that \<^verbatim>\<open>find\<close> makes,
  and no other.
\<close>

theorem count_is_length_of_find:
  assumes "find' srv s d c = (Inr (JList docs), s')"
  shows "count srv s d c = (Inr (int (length docs)), s') \<and>
         issued srv (Count d c) s = [request_args (self s) ''GET'' (''/'' @ d @ ''/'' @ c) None] \<and>
         issued srv (Count d c) s = issued srv (Find d c) s"
  using assms by (simp add: count_def issued_calls)

theorem count_is_length_of_find_witness:
  "count (server_status 200 (JList [JInt 7, JNull])) demo_state ''shop'' ''users'' =
     (Inr 2,
      demo_state\<lparr>sent := [request_args (self demo_state) ''GET'' ''/shop/users'' None]\<rparr>)"
proof -
  have f: "find' (server_status 200 (JList [JInt 7, JNull])) demo_state ''shop'' ''users'' =
        (Inr (JList [JInt 7, JNull]),
         demo_state\<lparr>sent := [request_args (self demo_state) ''GET'' ''/shop/users'' None]\<rparr>)"
    by (simp add: find'_def request_def send_def response_value_def raise_for_status_def
        server_status_def demo_state_def)
  show ?thesis
    using count_is_length_of_find [OF f] by simp
qed

text \<open>
  C7. For an endpoint \<open>e\<close> that does not end in a slash, the client built from \<open>e\<close> with a
  slash appended makes the same calls, for every method and every argument, as the client
  built from \<open>e\<close>: the stored endpoint is \<open>e\<close> in both.
\<close>

theorem trailing_slash_same_calls:
  assumes "e = [] \<or> last e \<noteq> CHR ''/''"
  shows "issued srv op \<lparr>self = init (e @ ''/'') k t, sent = log, stdout = out\<rparr> =
         issued srv op \<lparr>self = init e k t, sent = log, stdout = out\<rparr> \<and>
         endpoint (init (e @ ''/'') k t) = e"
  using assms rstrip_no_trailing [of e "CHR ''/''"]
  by (simp add: init_trailing_slash) (simp add: init_def)

theorem trailing_slash_same_calls_witness:
  "map url (issued server_down (Find_one ''shop'' ''users'' ''42'')
      \<lparr>self = init ''http://db.test/'' ''k1'' 10, sent = [], stdout = []\<rparr>) =
   map url (issued server_down (Find_one ''shop'' ''users'' ''42'')
      \<lparr>self = init ''http://db.test'' ''k1'' 10, sent = [], stdout = []\<rparr>) \<and>
   endpoint (init ''http://db.test/'' ''k1'' 10) = ''http://db.test''"
  using trailing_slash_same_calls
      [of "''http://db.test''" server_down "Find_one ''shop'' ''users'' ''42''" "''k1''" 10 "[]" "[]"]
  by simp

text \<open>
  C8. No method changes the client object: after any call, whatever the environment
  answers and whether the call returns or raises, every field of the client is what it
  was before.
\<close>

theorem client_unchanged: "self (snd (call srv op s)) = self s"
  by (rule call_self)

theorem client_unchanged_witness:
  "self (snd (call (server_failing_at 1) (Insert_many ''shop'' ''users'' [JInt 1, JInt 2])
      demo_state)) = DudwallsClient ''http://db.test/'' ''k1''"
  using client_unchanged
      [of "server_failing_at 1" "Insert_many ''shop'' ''users'' [JInt 1, JInt 2]" demo_state]
  by (simp add: demo_state_def)

text \<open>
  C9. Names go into the path as they are. \<^verbatim>\<open>find\<close> on database \<open>d\<close> and the collection
  name \<open>c/i\<close> makes the very call that \<^verbatim>\<open>find_one\<close> makes on \<open>d\<close>, \<open>c\<close> and identifier \<open>i\<close>.
  Each makes exactly one call, a GET of the base URL followed by \<open>/d/c/i\<close> with the three
  names unescaped, and the remaining arguments of the two calls are the same too.
\<close>

theorem find_path_collision:
  "issued srv (Find d (c @ ''/'' @ i)) s = issued srv (Find_one d c i) s \<and>
   map method_and_url (issued srv (Find d (c @ ''/'' @ i)) s) =
     [(''GET'', base_url (self s) @ ''/'' @ d @ ''/'' @ c @ ''/'' @ i)] \<and>
   map method_and_url (issued srv (Find_one d c i) s) =
     [(''GET'', base_url (self s) @ ''/'' @ d @ ''/'' @ c @ ''/'' @ i)]"
  by (simp add: issued_calls method_and_url_def request_args_def)

theorem find_path_collision_witness:
  "issued server_down (Find ''shop'' ''users/42'') demo_state =
     issued server_down (Find_one ''shop'' ''users'' ''42'') demo_state \<and>
   map method_and_url (issued server_down (Find ''shop'' ''users/42'') demo_state) =
     [(''GET'', ''http://db.test/api/dudwalls/shop/users/42'')] \<and>
   map method_and_url (issued server_down (Find_one ''shop'' ''users'' ''42'') demo_state) =
     [(''GET'', ''http://db.test/api/dudwalls/shop/users/42'')]"
  using find_path_collision [of server_down "''shop''" "''users''" "''42''" demo_state]
  by (simp add: demo_state_def DudwallsClient_def init_def rstrip_def)

text \<open>
  C10. \<^verbatim>\<open>insert_many\<close> on the empty list returns the empty list, leaves the state as it
  was, and makes no call to the HTTP library.
\<close>

theorem insert_many_empty:
  "insert_many srv s d c [] = (Inr [], s) \<and> issued srv (Insert_many d c []) s = []"
  by (simp add: insert_many_def issued_def)

theorem insert_many_empty_witness:
  "insert_many server_down demo_state ''shop'' ''users'' [] = (Inr [], demo_state)"
  using insert_many_empty [of server_down demo_state "''shop''" "''users''"]
  by simp

end
